theory Spec2Isabelle
  imports Main
begin

section \<open>The phone validator island\<close>

text \<open>
  The island \<^verbatim>\<open>PhoneValidator\<close> keeps four signals (\<^verbatim>\<open>strictMode\<close>,
  \<^verbatim>\<open>numberTypeFilter\<close>, \<^verbatim>\<open>result\<close>, \<^verbatim>\<open>isLoading\<close>) and two refs (the input
  element and the telephone widget). Its handler \<^verbatim>\<open>handleValidate\<close> reads the widget's
  accessors and writes one \<^verbatim>\<open>ValidationResult\<close> into \<^verbatim>\<open>result\<close>. The widget is a
  third-party library: it is modelled by what its accessors return at the moment the
  handler runs.

  JavaScript numbers that serve as codes (number types, validation errors, formats) are
  integers here; JavaScript strings are \<^typ>\<open>string\<close>; a value that may be
  \<^verbatim>\<open>undefined\<close> is an \<^typ>\<open>'a option\<close>.
\<close>

subsection \<open>Data\<close>

text \<open>\<^verbatim>\<open>type NumberType = "mobile" | "fixed_line" | "any"\<close>: the values of the filter.\<close>

datatype NumberType = mobile | fixed_line | any

text \<open>The interface \<^verbatim>\<open>ValidationResult\<close>; the optional \<^verbatim>\<open>errorMessage\<close> is absent as \<open>None\<close>.\<close>

record ValidationResult =
  isValid :: bool
  number :: string
  countryCode :: string
  countryName :: string
  nationalNumber :: string
  internationalNumber :: string
  numberType :: string
  errorMessage :: "string option"

text \<open>The constant object \<^verbatim>\<open>NumberType\<close>: number type IDs from libphonenumber.\<close>

definition FIXED_LINE :: int where "FIXED_LINE = 0"
definition MOBILE :: int where "MOBILE = 1"
definition FIXED_LINE_OR_MOBILE :: int where "FIXED_LINE_OR_MOBILE = 2"
definition TOLL_FREE :: int where "TOLL_FREE = 3"
definition PREMIUM_RATE :: int where "PREMIUM_RATE = 4"
definition SHARED_COST :: int where "SHARED_COST = 5"
definition VOIP :: int where "VOIP = 6"
definition PERSONAL_NUMBER :: int where "PERSONAL_NUMBER = 7"
definition PAGER :: int where "PAGER = 8"
definition UAN :: int where "UAN = 9"
definition VOICEMAIL :: int where "VOICEMAIL = 10"
definition UNKNOWN :: int where "UNKNOWN = - 1"

text \<open>
  \<^verbatim>\<open>numberTypeLabels: Record<number, string>\<close>. Indexing the object with a number that is
  not one of its keys yields \<^verbatim>\<open>undefined\<close>.
\<close>

definition numberTypeLabels :: "int \<rightharpoonup> string" where
  "numberTypeLabels = map_of
     [(FIXED_LINE, ''Fixed Line''),
      (MOBILE, ''Mobile''),
      (FIXED_LINE_OR_MOBILE, ''Fixed Line or Mobile''),
      (TOLL_FREE, ''Toll Free''),
      (PREMIUM_RATE, ''Premium Rate''),
      (SHARED_COST, ''Shared Cost''),
      (VOIP, ''VoIP''),
      (PERSONAL_NUMBER, ''Personal Number''),
      (PAGER, ''Pager''),
      (UAN, ''UAN''),
      (VOICEMAIL, ''Voicemail''),
      (UNKNOWN, ''Unknown'')]"

text \<open>The constant object \<^verbatim>\<open>NumberFormat\<close>: number format IDs from libphonenumber.\<close>

definition E164 :: int where "E164 = 0"
definition INTERNATIONAL :: int where "INTERNATIONAL = 1"
definition NATIONAL :: int where "NATIONAL = 2"
definition RFC3966 :: int where "RFC3966 = 3"

text \<open>\<^verbatim>\<open>errorMessages: Record<number, string>\<close>.\<close>

definition errorMessages :: "int \<rightharpoonup> string" where
  "errorMessages = map_of
     [(1, ''Invalid country code''),
      (2, ''Number too short''),
      (3, ''Number too long''),
      (4, ''Not a number''),
      (5, ''Invalid length''),
      (- 99, ''Validation unavailable'')]"

subsection \<open>JavaScript operators the handler uses\<close>

text \<open>
  \<^verbatim>\<open>v || d\<close> on a value \<^verbatim>\<open>v\<close> of type \<^verbatim>\<open>string | undefined\<close>: the default \<^verbatim>\<open>d\<close> is taken
  when \<^verbatim>\<open>v\<close> is falsy, that is \<^verbatim>\<open>undefined\<close> or the empty string.
\<close>

definition js_or :: "string option \<Rightarrow> string \<Rightarrow> string" where
  "js_or v d = (case v of None \<Rightarrow> d | Some s \<Rightarrow> if s = [] then d else s)"

text \<open>
  \<^verbatim>\<open>String.prototype.toUpperCase\<close>, on the ASCII range: the letters a to z move to A to Z
  and every other character stays. (The country codes of the widget are two ASCII
  letters.)
\<close>

definition upper_char :: "char \<Rightarrow> char" where
  "upper_char c =
     (if (97::nat) \<le> of_char c \<and> of_char c \<le> (122::nat)
      then char_of (of_char c - (32::nat)) else c)"

definition toUpperCase :: "string \<Rightarrow> string" where
  "toUpperCase s = map upper_char s"

subsection \<open>The widget and the island's state\<close>

text \<open>\<^verbatim>\<open>iti.getSelectedCountryData()\<close>: both fields may be missing.\<close>

record SelectedCountryData =
  iso2 :: "string option"
  name :: "string option"

text \<open>
  What the widget instance answers when the handler runs: \<^verbatim>\<open>isValidNumber()\<close>,
  \<^verbatim>\<open>getSelectedCountryData()\<close>, \<^verbatim>\<open>getValidationError()\<close>, \<^verbatim>\<open>getNumberType()\<close> and
  \<^verbatim>\<open>getNumber(format)\<close>. The handler tests \<^verbatim>\<open>!isValid\<close>, so an answer of
  \<^verbatim>\<open>isValidNumber()\<close> that is not \<^verbatim>\<open>true\<close> counts as \<open>False\<close>. The type \<open>'f\<close> is what
  \<^verbatim>\<open>getNumber\<close> is given as format: a format id in the island, a format id or
  \<^verbatim>\<open>undefined\<close> in the text of the island kept in \<^verbatim>\<open>src/routes/index.tsx\<close>.
\<close>

record 'f Iti =
  isValidNumber :: bool
  getSelectedCountryData :: SelectedCountryData
  getValidationError :: int
  getNumberType :: int
  getNumber :: "'f \<Rightarrow> string"

text \<open>
  The state of the island. \<open>inputRef\<close> holds \<^verbatim>\<open>inputRef.current.value\<close> (\<open>None\<close> when the
  ref is \<^verbatim>\<open>null\<close>), \<open>itiRef\<close> the widget (\<open>None\<close> when \<^verbatim>\<open>null\<close>); \<open>result\<close> is \<open>None\<close>
  for \<^verbatim>\<open>null\<close>.
\<close>

record 'f PhoneValidator =
  inputRef :: "string option"
  itiRef :: "'f Iti option"
  strictMode :: bool
  numberTypeFilter :: NumberType
  result :: "ValidationResult option"
  isLoading :: bool

subsection \<open>The handler\<close>

text \<open>
  \<^verbatim>\<open>handleValidate\<close>: it returns at once, changing nothing, when a ref is \<^verbatim>\<open>null\<close> or the
  island is loading; otherwise it writes \<^verbatim>\<open>result.value\<close> in one of four places, in the
  order of the source. The last of them, reached both when the filter is \<^verbatim>\<open>"any"\<close> and
  when neither rejection applies, is bound to \<open>accepted\<close>.
\<close>

definition handleValidate :: "int PhoneValidator \<Rightarrow> int PhoneValidator" where
  "handleValidate s =
     (case itiRef s of
        None \<Rightarrow> s
      | Some iti \<Rightarrow>
     (case inputRef s of
        None \<Rightarrow> s
      | Some input_value \<Rightarrow>
        if isLoading s then s
        else
          let valid = isValidNumber iti;
              numberData = getSelectedCountryData iti
          in
          if \<not> valid then
            let errorCode = getValidationError iti in
            s\<lparr>result := Some
              \<lparr>isValid = False,
               number = input_value,
               countryCode = js_or (map_option toUpperCase (iso2 numberData)) [],
               countryName = js_or (name numberData) [],
               nationalNumber = [],
               internationalNumber = [],
               numberType = [],
               errorMessage = Some (js_or (errorMessages errorCode) ''Invalid number'')\<rparr>\<rparr>
          else
            let typ = getNumberType iti;
                isMobile = (typ = MOBILE \<or> typ = FIXED_LINE_OR_MOBILE);
                isFixedLine = (typ = FIXED_LINE \<or> typ = FIXED_LINE_OR_MOBILE);
                accepted = s\<lparr>result := Some
                  \<lparr>isValid = True,
                   number = input_value,
                   countryCode = js_or (map_option toUpperCase (iso2 numberData)) [],
                   countryName = js_or (name numberData) [],
                   nationalNumber = js_or (Some (getNumber iti NATIONAL)) [],
                   internationalNumber = js_or (Some (getNumber iti INTERNATIONAL)) [],
                   numberType = js_or (numberTypeLabels typ) ''Unknown'',
                   errorMessage = None\<rparr>\<rparr>
            in
            if numberTypeFilter s \<noteq> any then
              if numberTypeFilter s = mobile \<and> \<not> isMobile then
                s\<lparr>result := Some
                  \<lparr>isValid = False,
                   number = input_value,
                   countryCode = js_or (map_option toUpperCase (iso2 numberData)) [],
                   countryName = js_or (name numberData) [],
                   nationalNumber = js_or (Some (getNumber iti NATIONAL)) [],
                   internationalNumber = js_or (Some (getNumber iti INTERNATIONAL)) [],
                   numberType = js_or (numberTypeLabels typ) ''Unknown'',
                   errorMessage = Some (''Expected mobile number, got '' @
                     js_or (numberTypeLabels typ) ''Unknown'')\<rparr>\<rparr>
              else if numberTypeFilter s = fixed_line \<and> \<not> isFixedLine then
                s\<lparr>result := Some
                  \<lparr>isValid = False,
                   number = input_value,
                   countryCode = js_or (map_option toUpperCase (iso2 numberData)) [],
                   countryName = js_or (name numberData) [],
                   nationalNumber = js_or (Some (getNumber iti NATIONAL)) [],
                   internationalNumber = js_or (Some (getNumber iti INTERNATIONAL)) [],
                   numberType = js_or (numberTypeLabels typ) ''Unknown'',
                   errorMessage = Some (''Expected fixed line number, got '' @
                     js_or (numberTypeLabels typ) ''Unknown'')\<rparr>\<rparr>
              else accepted
            else accepted))"

subsection \<open>Sample widgets and a mounted island\<close>

text \<open>
  A mounted island: both refs are set and loading is over. The filter and the text of
  the input are given; no result has been written yet.
\<close>

definition island :: "'f Iti \<Rightarrow> string \<Rightarrow> NumberType \<Rightarrow> 'f PhoneValidator" where
  "island iti v f =
     \<lparr>inputRef = Some v, itiRef = Some iti, strictMode = False, numberTypeFilter = f,
      result = None, isLoading = False\<rparr>"

text \<open>A widget that rejected the number with the validation error \<open>e\<close>.\<close>

definition rejected_number :: "int \<Rightarrow> 'f Iti" where
  "rejected_number e =
     \<lparr>isValidNumber = False,
      getSelectedCountryData = \<lparr>iso2 = Some ''us'', name = Some ''United States''\<rparr>,
      getValidationError = e,
      getNumberType = UNKNOWN,
      getNumber = (\<lambda>f. [])\<rparr>"

text \<open>A widget that accepted a United States number and classified it as \<open>t\<close>.\<close>

definition us_number :: "int \<Rightarrow> int Iti" where
  "us_number t =
     \<lparr>isValidNumber = True,
      getSelectedCountryData = \<lparr>iso2 = Some ''us'', name = Some ''United States''\<rparr>,
      getValidationError = 0,
      getNumberType = t,
      getNumber = (\<lambda>f. if f = NATIONAL then ''(555) 123-4567''
                        else if f = INTERNATIONAL then ''+1 555-123-4567''
                        else ''+15551234567'')\<rparr>"

text \<open>
  A JavaScript value that is a number or a string: the type at which a field of the
  result can be compared with what the widget returned.
\<close>

datatype js_value = JSNumber int | JSString string

section \<open>The island as kept in src/routes/index.tsx\<close>

text \<open>
  The file \<^verbatim>\<open>src/routes/index.tsx\<close> carries a second text of the island. There the
  number type is named before it is labelled: the handler looks the code up in
  \<^verbatim>\<open>window.intlTelInputUtils.numberType\<close>, the widget's utilities, which are loaded from
  a script and are \<^verbatim>\<open>undefined\<close> until then. The labels are keyed by that name, the
  table of error messages is another one, \<^verbatim>\<open>getNumber\<close> is given a format read from the
  utilities (\<^verbatim>\<open>undefined\<close> when they are missing), and the guard does not look at
  \<^verbatim>\<open>isLoading\<close>.
\<close>

text \<open>\<^verbatim>\<open>numberTypeLabels: Record<string, string>\<close> of that file.\<close>

definition numberTypeLabels_routes :: "string \<rightharpoonup> string" where
  "numberTypeLabels_routes = map_of
     [(''FIXED_LINE'', ''Fixed Line''),
      (''MOBILE'', ''Mobile''),
      (''FIXED_LINE_OR_MOBILE'', ''Fixed Line or Mobile''),
      (''TOLL_FREE'', ''Toll Free''),
      (''PREMIUM_RATE'', ''Premium Rate''),
      (''SHARED_COST'', ''Shared Cost''),
      (''VOIP'', ''VoIP''),
      (''PERSONAL_NUMBER'', ''Personal Number''),
      (''PAGER'', ''Pager''),
      (''UAN'', ''UAN''),
      (''VOICEMAIL'', ''Voicemail''),
      (''UNKNOWN'', ''Unknown'')]"

text \<open>\<^verbatim>\<open>errorMessages: Record<number, string>\<close> of that file.\<close>

definition errorMessages_routes :: "int \<rightharpoonup> string" where
  "errorMessages_routes = map_of
     [(0, ''Invalid number''),
      (1, ''Invalid country code''),
      (2, ''Number too short''),
      (3, ''Number too long''),
      (4, ''Invalid length'')]"

text \<open>
  The declaration of \<^verbatim>\<open>window.intlTelInputUtils\<close>: both members are optional.
  \<^verbatim>\<open>numberType: Record<string, number>\<close> is a list of keys with their codes, in the
  order \<^verbatim>\<open>Object.keys\<close> gives them; a key occurs once.
\<close>

record NumberFormatIds =
  format_E164 :: int
  format_INTERNATIONAL :: int
  format_NATIONAL :: int
  format_RFC3966 :: int

record IntlTelInputUtils =
  utils_numberFormat :: "NumberFormatIds option"
  utils_numberType :: "(string \<times> int) list option"

text \<open>
  \<^verbatim>\<open>Object.keys(window.intlTelInputUtils?.numberType || {}).find(key => ...[key] === numberType) || "UNKNOWN"\<close>:
  the first key whose code is the widget's number type, and \<^verbatim>\<open>"UNKNOWN"\<close> when the
  utilities are missing, when no key has that code, or when the key found is the empty
  string.
\<close>

definition numberTypeKey :: "IntlTelInputUtils option \<Rightarrow> int \<Rightarrow> string" where
  "numberTypeKey utils typ =
     (let table = (case utils of None \<Rightarrow> None | Some u \<Rightarrow> utils_numberType u) in
      js_or (find (\<lambda>key. (case table of None \<Rightarrow> None | Some t \<Rightarrow> map_of t key) = Some typ)
               (case table of None \<Rightarrow> [] | Some t \<Rightarrow> map fst t))
        ''UNKNOWN'')"

text \<open>
  \<^verbatim>\<open>handleValidate\<close> of that file; \<open>utils\<close> is \<^verbatim>\<open>window.intlTelInputUtils\<close>. The widget's
  \<^verbatim>\<open>getNumber\<close> takes a format that may be \<^verbatim>\<open>undefined\<close>.
\<close>

definition handleValidate_routes ::
  "IntlTelInputUtils option \<Rightarrow> int option PhoneValidator \<Rightarrow> int option PhoneValidator" where
  "handleValidate_routes utils s =
     (case itiRef s of
        None \<Rightarrow> s
      | Some iti \<Rightarrow>
     (case inputRef s of
        None \<Rightarrow> s
      | Some input_value \<Rightarrow>
          let valid = isValidNumber iti;
              numberData = getSelectedCountryData iti
          in
          if \<not> valid then
            let errorCode = getValidationError iti in
            s\<lparr>result := Some
              \<lparr>isValid = False,
               number = input_value,
               countryCode = js_or (map_option toUpperCase (iso2 numberData)) [],
               countryName = js_or (name numberData) [],
               nationalNumber = [],
               internationalNumber = [],
               numberType = [],
               errorMessage =
                 Some (js_or (errorMessages_routes errorCode) ''Invalid number'')\<rparr>\<rparr>
          else
            let typ = getNumberType iti;
                key = numberTypeKey utils typ;
                formats = (case utils of None \<Rightarrow> None | Some u \<Rightarrow> utils_numberFormat u);
                accepted = s\<lparr>result := Some
                  \<lparr>isValid = True,
                   number = input_value,
                   countryCode = js_or (map_option toUpperCase (iso2 numberData)) [],
                   countryName = js_or (name numberData) [],
                   nationalNumber =
                     js_or (Some (getNumber iti (map_option format_NATIONAL formats))) [],
                   internationalNumber =
                     js_or (Some (getNumber iti (map_option format_INTERNATIONAL formats))) [],
                   numberType = js_or (numberTypeLabels_routes key) key,
                   errorMessage = None\<rparr>\<rparr>
            in
            if numberTypeFilter s \<noteq> any then
              let isMobile = (key = ''MOBILE'' \<or> key = ''FIXED_LINE_OR_MOBILE'');
                  isFixedLine = (key = ''FIXED_LINE'' \<or> key = ''FIXED_LINE_OR_MOBILE'')
              in
              if numberTypeFilter s = mobile \<and> \<not> isMobile then
                s\<lparr>result := Some
                  \<lparr>isValid = False,
                   number = input_value,
                   countryCode = js_or (map_option toUpperCase (iso2 numberData)) [],
                   countryName = js_or (name numberData) [],
                   nationalNumber =
                     js_or (Some (getNumber iti (map_option format_NATIONAL formats))) [],
                   internationalNumber =
                     js_or (Some (getNumber iti (map_option format_INTERNATIONAL formats))) [],
                   numberType = js_or (numberTypeLabels_routes key) key,
                   errorMessage = Some (''Expected mobile number, got '' @
                     js_or (numberTypeLabels_routes key) key)\<rparr>\<rparr>
              else if numberTypeFilter s = fixed_line \<and> \<not> isFixedLine then
                s\<lparr>result := Some
                  \<lparr>isValid = False,
                   number = input_value,
                   countryCode = js_or (map_option toUpperCase (iso2 numberData)) [],
                   countryName = js_or (name numberData) [],
                   nationalNumber =
                     js_or (Some (getNumber iti (map_option format_NATIONAL formats))) [],
                   internationalNumber =
                     js_or (Some (getNumber iti (map_option format_INTERNATIONAL formats))) [],
                   numberType = js_or (numberTypeLabels_routes key) key,
                   errorMessage = Some (''Expected fixed line number, got '' @
                     js_or (numberTypeLabels_routes key) key)\<rparr>\<rparr>
              else accepted
            else accepted))"

text \<open>
  The utilities as the widget's script defines them: the format ids and the type ids of
  libphonenumber, the same numbers as the constants \<^verbatim>\<open>NumberFormat\<close> and \<^verbatim>\<open>NumberType\<close>
  of the island above.
\<close>

definition loaded_utils :: IntlTelInputUtils where
  "loaded_utils =
     \<lparr>utils_numberFormat = Some
        \<lparr>format_E164 = E164, format_INTERNATIONAL = INTERNATIONAL,
         format_NATIONAL = NATIONAL, format_RFC3966 = RFC3966\<rparr>,
      utils_numberType = Some
        [(''FIXED_LINE'', FIXED_LINE),
         (''MOBILE'', MOBILE),
         (''FIXED_LINE_OR_MOBILE'', FIXED_LINE_OR_MOBILE),
         (''TOLL_FREE'', TOLL_FREE),
         (''PREMIUM_RATE'', PREMIUM_RATE),
         (''SHARED_COST'', SHARED_COST),
         (''VOIP'', VOIP),
         (''PERSONAL_NUMBER'', PERSONAL_NUMBER),
         (''PAGER'', PAGER),
         (''UAN'', UAN),
         (''VOICEMAIL'', VOICEMAIL),
         (''UNKNOWN'', UNKNOWN)]\<rparr>"

text \<open>A widget that accepted a number and classified it as \<open>t\<close>, with formats by optional id.\<close>

definition gb_number :: "int \<Rightarrow> int option Iti" where
  "gb_number t =
     \<lparr>isValidNumber = True,
      getSelectedCountryData = \<lparr>iso2 = Some ''gb'', name = Some ''United Kingdom''\<rparr>,
      getValidationError = 0,
      getNumberType = t,
      getNumber = (\<lambda>f. if f = Some NATIONAL then ''07400 123456''
                        else if f = Some INTERNATIONAL then ''+44 7400 123456''
                        else ''+447400123456'')\<rparr>"

section \<open>Properties of the handler\<close>

lemmas NumberType_ids =
  FIXED_LINE_def MOBILE_def FIXED_LINE_OR_MOBILE_def TOLL_FREE_def PREMIUM_RATE_def
  SHARED_COST_def VOIP_def PERSONAL_NUMBER_def PAGER_def UAN_def VOICEMAIL_def UNKNOWN_def

lemmas fixtures = island_def rejected_number_def us_number_def

subsection \<open>The operators on the values the handler meets\<close>

lemma js_or_option_empty: "js_or v [] = (case v of None \<Rightarrow> [] | Some s \<Rightarrow> s)"
  by (simp add: js_or_def split: option.split)

lemma numberTypeLabels_nonempty: "numberTypeLabels t = Some l \<Longrightarrow> l \<noteq> []"
  by (auto simp: numberTypeLabels_def NumberType_ids split: if_splits)

lemma errorMessages_nonempty: "errorMessages c = Some m \<Longrightarrow> m \<noteq> []"
  by (auto simp: errorMessages_def split: if_splits)

text \<open>No entry of either table is the empty string, so the default is taken for a missing key only.\<close>

lemma js_or_label:
  "js_or (numberTypeLabels t) ''Unknown'' =
     (case numberTypeLabels t of None \<Rightarrow> ''Unknown'' | Some l \<Rightarrow> l)"
  by (auto simp: js_or_def dest: numberTypeLabels_nonempty split: option.split)

lemma js_or_message:
  "js_or (errorMessages c) ''Invalid number'' =
     (case errorMessages c of None \<Rightarrow> ''Invalid number'' | Some m \<Rightarrow> m)"
  by (auto simp: js_or_def dest: errorMessages_nonempty split: option.split)

lemma label_nonempty: "js_or (numberTypeLabels t) ''Unknown'' \<noteq> []"
  by (auto simp: js_or_label dest: numberTypeLabels_nonempty split: option.split)

lemma numberTypeLabels_unlisted:
  "t \<notin> {FIXED_LINE, MOBILE, FIXED_LINE_OR_MOBILE, TOLL_FREE, PREMIUM_RATE, SHARED_COST, VOIP,
          PERSONAL_NUMBER, PAGER, UAN, VOICEMAIL, UNKNOWN} \<Longrightarrow> numberTypeLabels t = None"
  by (simp add: numberTypeLabels_def)

lemma toUpperCase_us: "toUpperCase ''us'' = ''US''"
  by code_simp

subsection \<open>The outcomes of the handler\<close>

lemma handleValidate_guard:
  "itiRef s = None \<or> inputRef s = None \<or> isLoading s \<Longrightarrow> handleValidate s = s"
  by (auto simp: handleValidate_def split: option.split)

lemma handleValidate_invalid:
  assumes "itiRef s = Some iti" and "inputRef s = Some v" and "\<not> isLoading s"
    and "\<not> isValidNumber iti"
  shows "handleValidate s = s\<lparr>result := Some
      \<lparr>isValid = False,
       number = v,
       countryCode = js_or (map_option toUpperCase (iso2 (getSelectedCountryData iti))) [],
       countryName = js_or (name (getSelectedCountryData iti)) [],
       nationalNumber = [],
       internationalNumber = [],
       numberType = [],
       errorMessage = Some (js_or (errorMessages (getValidationError iti)) ''Invalid number'')\<rparr>\<rparr>"
  using assms unfolding handleValidate_def Let_def by simp

lemma handleValidate_not_mobile:
  assumes "itiRef s = Some iti" and "inputRef s = Some v" and "\<not> isLoading s"
    and "isValidNumber iti" and "numberTypeFilter s = mobile"
    and "getNumberType iti \<noteq> MOBILE" and "getNumberType iti \<noteq> FIXED_LINE_OR_MOBILE"
  shows "handleValidate s = s\<lparr>result := Some
      \<lparr>isValid = False,
       number = v,
       countryCode = js_or (map_option toUpperCase (iso2 (getSelectedCountryData iti))) [],
       countryName = js_or (name (getSelectedCountryData iti)) [],
       nationalNumber = js_or (Some (getNumber iti NATIONAL)) [],
       internationalNumber = js_or (Some (getNumber iti INTERNATIONAL)) [],
       numberType = js_or (numberTypeLabels (getNumberType iti)) ''Unknown'',
       errorMessage = Some (''Expected mobile number, got '' @
         js_or (numberTypeLabels (getNumberType iti)) ''Unknown'')\<rparr>\<rparr>"
  using assms unfolding handleValidate_def Let_def by simp

lemma handleValidate_not_fixed_line:
  assumes "itiRef s = Some iti" and "inputRef s = Some v" and "\<not> isLoading s"
    and "isValidNumber iti" and "numberTypeFilter s = fixed_line"
    and "getNumberType iti \<noteq> FIXED_LINE" and "getNumberType iti \<noteq> FIXED_LINE_OR_MOBILE"
  shows "handleValidate s = s\<lparr>result := Some
      \<lparr>isValid = False,
       number = v,
       countryCode = js_or (map_option toUpperCase (iso2 (getSelectedCountryData iti))) [],
       countryName = js_or (name (getSelectedCountryData iti)) [],
       nationalNumber = js_or (Some (getNumber iti NATIONAL)) [],
       internationalNumber = js_or (Some (getNumber iti INTERNATIONAL)) [],
       numberType = js_or (numberTypeLabels (getNumberType iti)) ''Unknown'',
       errorMessage = Some (''Expected fixed line number, got '' @
         js_or (numberTypeLabels (getNumberType iti)) ''Unknown'')\<rparr>\<rparr>"
  using assms unfolding handleValidate_def Let_def by simp

lemma handleValidate_accepted:
  assumes "itiRef s = Some iti" and "inputRef s = Some v" and "\<not> isLoading s"
    and "isValidNumber iti"
    and "numberTypeFilter s = any
       \<or> (numberTypeFilter s = mobile \<and> getNumberType iti \<in> {MOBILE, FIXED_LINE_OR_MOBILE})
       \<or> (numberTypeFilter s = fixed_line
            \<and> getNumberType iti \<in> {FIXED_LINE, FIXED_LINE_OR_MOBILE})"
  shows "handleValidate s = s\<lparr>result := Some
      \<lparr>isValid = True,
       number = v,
       countryCode = js_or (map_option toUpperCase (iso2 (getSelectedCountryData iti))) [],
       countryName = js_or (name (getSelectedCountryData iti)) [],
       nationalNumber = js_or (Some (getNumber iti NATIONAL)) [],
       internationalNumber = js_or (Some (getNumber iti INTERNATIONAL)) [],
       numberType = js_or (numberTypeLabels (getNumberType iti)) ''Unknown'',
       errorMessage = None\<rparr>\<rparr>"
  using assms unfolding handleValidate_def Let_def by auto

text \<open>A number the widget accepted meets exactly one of three outcomes.\<close>

lemma valid_number_outcomes:
  obtains
    (accepted) "numberTypeFilter s = any
       \<or> (numberTypeFilter s = mobile \<and> getNumberType iti \<in> {MOBILE, FIXED_LINE_OR_MOBILE})
       \<or> (numberTypeFilter s = fixed_line
            \<and> getNumberType iti \<in> {FIXED_LINE, FIXED_LINE_OR_MOBILE})"
  | (not_mobile) "numberTypeFilter s = mobile"
      "getNumberType iti \<noteq> MOBILE" "getNumberType iti \<noteq> FIXED_LINE_OR_MOBILE"
  | (not_fixed_line) "numberTypeFilter s = fixed_line"
      "getNumberType iti \<noteq> FIXED_LINE" "getNumberType iti \<noteq> FIXED_LINE_OR_MOBILE"
  by (cases "numberTypeFilter s") auto

text \<open>The handler writes the signal \<open>result\<close> and nothing else.\<close>

lemma handleValidate_frame: "handleValidate s = s\<lparr>result := result (handleValidate s)\<rparr>"
  by (cases "itiRef s"; cases "inputRef s"; simp add: handleValidate_def Let_def)

lemma handleValidate_keeps:
  "inputRef (handleValidate s) = inputRef s"
  "itiRef (handleValidate s) = itiRef s"
  "strictMode (handleValidate s) = strictMode s"
  "numberTypeFilter (handleValidate s) = numberTypeFilter s"
  "isLoading (handleValidate s) = isLoading s"
  by (cases "itiRef s"; cases "inputRef s"; simp add: handleValidate_def Let_def)+

text \<open>What is written depends on the widget, the input and the filter only.\<close>

lemma handleValidate_same_inputs:
  assumes "itiRef s = Some iti" and "inputRef s = Some v" and "\<not> isLoading s"
    and "itiRef s' = Some iti" and "inputRef s' = Some v" and "\<not> isLoading s'"
    and "numberTypeFilter s' = numberTypeFilter s"
  shows "result (handleValidate s') = result (handleValidate s)"
  using assms by (simp add: handleValidate_def Let_def)

subsection \<open>The scenarios of the specification, run on the model\<close>

lemma scenario_too_short:
  "result (handleValidate (island (rejected_number 2) ''123'' any)) = Some
     \<lparr>isValid = False, number = ''123'', countryCode = ''US'', countryName = ''United States'',
      nationalNumber = [], internationalNumber = [], numberType = [],
      errorMessage = Some ''Number too short''\<rparr>"
  by (simp add: handleValidate_def fixtures js_or_def errorMessages_def toUpperCase_us)

lemma scenario_mobile_any:
  "result (handleValidate (island (us_number MOBILE) ''5551234567'' any)) = Some
     \<lparr>isValid = True, number = ''5551234567'', countryCode = ''US'',
      countryName = ''United States'', nationalNumber = ''(555) 123-4567'',
      internationalNumber = ''+1 555-123-4567'', numberType = ''Mobile'',
      errorMessage = None\<rparr>"
  by (simp add: handleValidate_def fixtures js_or_def numberTypeLabels_def NumberType_ids
      toUpperCase_us INTERNATIONAL_def NATIONAL_def)

lemma scenario_mobile_fixed_line:
  "result (handleValidate (island (us_number MOBILE) ''5551234567'' fixed_line)) = Some
     \<lparr>isValid = False, number = ''5551234567'', countryCode = ''US'',
      countryName = ''United States'', nationalNumber = ''(555) 123-4567'',
      internationalNumber = ''+1 555-123-4567'', numberType = ''Mobile'',
      errorMessage = Some ''Expected fixed line number, got Mobile''\<rparr>"
  by (simp add: handleValidate_def fixtures js_or_def numberTypeLabels_def NumberType_ids
      toUpperCase_us INTERNATIONAL_def NATIONAL_def)

lemma scenario_unlisted_error:
  "result (handleValidate (island (rejected_number 999) ''123'' any)) = Some
     \<lparr>isValid = False, number = ''123'', countryCode = ''US'', countryName = ''United States'',
      nationalNumber = [], internationalNumber = [], numberType = [],
      errorMessage = Some ''Invalid number''\<rparr>"
  by (simp add: handleValidate_def fixtures js_or_def errorMessages_def toUpperCase_us)

section \<open>The claims\<close>

text \<open>
  Each statement below speaks of a run of the handler that gets past its guard: both
  refs are set (\<open>itiRef s = Some iti\<close>, \<open>inputRef s = Some v\<close>) and the island is not
  loading. The raw classification of the specification is what \<open>iti\<close> and \<open>v\<close> carry, the
  type filter is \<open>numberTypeFilter s\<close>, and the result is what the handler leaves in
  \<open>result\<close>.
\<close>

text \<open>
  C1. For a number the widget accepted, the final verdict is positive exactly when the
  filter is \<open>any\<close>, or it is \<open>mobile\<close> and the type is MOBILE or FIXED_LINE_OR_MOBILE, or it
  is \<open>fixed_line\<close> and the type is FIXED_LINE or FIXED_LINE_OR_MOBILE. In particular a
  FIXED_LINE_OR_MOBILE number passes every filter.
\<close>

theorem verdict_of_valid_number:
  assumes "itiRef s = Some iti" and "inputRef s = Some v" and "\<not> isLoading s"
    and "isValidNumber iti"
  shows "\<exists>r. result (handleValidate s) = Some r \<and>
    isValid r =
      (numberTypeFilter s = any
       \<or> (numberTypeFilter s = mobile \<and> getNumberType iti \<in> {MOBILE, FIXED_LINE_OR_MOBILE})
       \<or> (numberTypeFilter s = fixed_line
            \<and> getNumberType iti \<in> {FIXED_LINE, FIXED_LINE_OR_MOBILE}))
    \<and> (getNumberType iti = FIXED_LINE_OR_MOBILE \<longrightarrow> isValid r)"
proof (cases rule: valid_number_outcomes [of s iti])
  case accepted
  from handleValidate_accepted [OF assms this] accepted show ?thesis by auto
next
  case not_mobile
  from handleValidate_not_mobile [OF assms this] not_mobile show ?thesis by simp
next
  case not_fixed_line
  from handleValidate_not_fixed_line [OF assms this] not_fixed_line show ?thesis by simp
qed

theorem verdict_of_valid_number_witness:
  "itiRef (island (us_number FIXED_LINE_OR_MOBILE) ''5551234567'' mobile)
     = Some (us_number FIXED_LINE_OR_MOBILE)
   \<and> inputRef (island (us_number FIXED_LINE_OR_MOBILE) ''5551234567'' mobile)
     = Some ''5551234567''
   \<and> \<not> isLoading (island (us_number FIXED_LINE_OR_MOBILE) ''5551234567'' mobile)
   \<and> isValidNumber (us_number FIXED_LINE_OR_MOBILE)
   \<and> (\<exists>r. result (handleValidate (island (us_number FIXED_LINE_OR_MOBILE) ''5551234567'' mobile))
          = Some r \<and> isValid r)"
  using verdict_of_valid_number
    [of "island (us_number FIXED_LINE_OR_MOBILE) ''5551234567'' mobile"
        "us_number FIXED_LINE_OR_MOBILE" "''5551234567''"]
  by (simp add: fixtures)

text \<open>
  C2. The result carries an error message if and only if its verdict is negative. The
  message of a rejection is moreover never the empty string, which the page would not
  show.
\<close>

theorem errorMessage_iff_rejected:
  assumes "itiRef s = Some iti" and "inputRef s = Some v" and "\<not> isLoading s"
  shows "\<exists>r. result (handleValidate s) = Some r \<and>
    (errorMessage r \<noteq> None) = (\<not> isValid r) \<and> errorMessage r \<noteq> Some []"
proof (cases "isValidNumber iti")
  case False
  from handleValidate_invalid [OF assms False] show ?thesis
    by (auto simp: js_or_message dest: errorMessages_nonempty split: option.split)
next
  case True
  show ?thesis
  proof (cases rule: valid_number_outcomes [of s iti])
    case accepted
    from handleValidate_accepted [OF assms True this] show ?thesis by simp
  next
    case not_mobile
    from handleValidate_not_mobile [OF assms True this] show ?thesis by simp
  next
    case not_fixed_line
    from handleValidate_not_fixed_line [OF assms True this] show ?thesis by simp
  qed
qed

theorem errorMessage_iff_rejected_witness:
  "itiRef (island (us_number MOBILE) ''5551234567'' fixed_line) = Some (us_number MOBILE)
   \<and> inputRef (island (us_number MOBILE) ''5551234567'' fixed_line) = Some ''5551234567''
   \<and> \<not> isLoading (island (us_number MOBILE) ''5551234567'' fixed_line)
   \<and> (\<exists>r. result (handleValidate (island (us_number MOBILE) ''5551234567'' fixed_line)) = Some r
          \<and> (errorMessage r \<noteq> None) = (\<not> isValid r) \<and> errorMessage r \<noteq> Some [])"
  using errorMessage_iff_rejected
    [of "island (us_number MOBILE) ''5551234567'' fixed_line" "us_number MOBILE"
        "''5551234567''"]
  by (simp add: fixtures)

text \<open>
  C3. When the widget rejects the number, whatever the filter, the verdict is negative,
  the two formatted numbers and the number type are the empty string, and the message is
  the entry of \<open>errorMessages\<close> for the widget's validation error (code 2 gives
  "Number too short"), or "Invalid number" when the table has no such entry.
\<close>

theorem basic_invalidity:
  assumes "itiRef s = Some iti" and "inputRef s = Some v" and "\<not> isLoading s"
    and "\<not> isValidNumber iti"
  shows "\<exists>r. result (handleValidate s) = Some r \<and>
    \<not> isValid r \<and> nationalNumber r = [] \<and> internationalNumber r = [] \<and> numberType r = [] \<and>
    errorMessage r =
      Some (case errorMessages (getValidationError iti) of
              None \<Rightarrow> ''Invalid number'' | Some m \<Rightarrow> m) \<and>
    errorMessages 2 = Some ''Number too short''"
proof -
  have "errorMessages 2 = Some ''Number too short''"
    by (simp add: errorMessages_def)
  with handleValidate_invalid [OF assms] show ?thesis
    by (simp add: js_or_message)
qed

theorem basic_invalidity_witness:
  "itiRef (island (rejected_number 999) ''123'' mobile) = Some (rejected_number 999)
   \<and> inputRef (island (rejected_number 999) ''123'' mobile) = Some ''123''
   \<and> \<not> isLoading (island (rejected_number 999) ''123'' mobile)
   \<and> \<not> isValidNumber (rejected_number 999)
   \<and> (\<exists>r. result (handleValidate (island (rejected_number 999) ''123'' mobile)) = Some r
          \<and> \<not> isValid r \<and> nationalNumber r = [] \<and> internationalNumber r = []
          \<and> numberType r = [] \<and> errorMessage r = Some ''Invalid number'')"
  using basic_invalidity [of "island (rejected_number 999) ''123'' mobile" "rejected_number 999"
      "''123''"]
  by (simp add: fixtures errorMessages_def)

text \<open>
  C4, as the specification words it: for a number the widget accepted, the fields
  \<open>nationalNumber\<close>, \<open>internationalNumber\<close> and \<open>numberType\<close> of the result equal the
  widget's values verbatim. This holds for the two formatted numbers and fails for the
  number type. The widget returns a numeric type code, and the result holds the display
  label the handler looks up for it: for MOBILE (code 1) the field is the string
  "Mobile", which is not the value 1. Nor does the field determine the code: the code
  \<open>UNKNOWN\<close> and a code that is not in the table both give "Unknown".
\<close>

theorem numberType_verbatim_counterexample:
  "isValidNumber (us_number MOBILE)
   \<and> getNumberType (us_number MOBILE) = 1
   \<and> (\<exists>r. result (handleValidate (island (us_number MOBILE) ''5551234567'' any)) = Some r
          \<and> numberType r = ''Mobile''
          \<and> JSString (numberType r) \<noteq> JSNumber (getNumberType (us_number MOBILE)))
   \<and> getNumberType (us_number UNKNOWN) \<noteq> getNumberType (us_number 11)
   \<and> map_option numberType (result (handleValidate (island (us_number UNKNOWN) ''5551234567'' any)))
       = map_option numberType (result (handleValidate (island (us_number 11) ''5551234567'' any)))"
  by (simp add: handleValidate_def fixtures js_or_def numberTypeLabels_def NumberType_ids)

text \<open>
  C4, amended: for a number the widget accepted, whether the final verdict is acceptance
  or a type-mismatch rejection, \<open>nationalNumber\<close> and \<open>internationalNumber\<close> equal the
  widget's national and international formats verbatim, and \<open>numberType\<close> is the display
  label of the widget's type code: its entry in \<open>numberTypeLabels\<close>, or "Unknown" for a
  code outside the table. The label is never empty.
\<close>

theorem valid_number_fields:
  assumes "itiRef s = Some iti" and "inputRef s = Some v" and "\<not> isLoading s"
    and "isValidNumber iti"
  shows "\<exists>r. result (handleValidate s) = Some r \<and>
    nationalNumber r = getNumber iti NATIONAL \<and>
    internationalNumber r = getNumber iti INTERNATIONAL \<and>
    numberType r = (case numberTypeLabels (getNumberType iti) of
                      None \<Rightarrow> ''Unknown'' | Some l \<Rightarrow> l) \<and>
    numberType r \<noteq> []"
proof (cases rule: valid_number_outcomes [of s iti])
  case accepted
  from handleValidate_accepted [OF assms this] show ?thesis
    using label_nonempty [of "getNumberType iti"]
    by (simp add: js_or_option_empty js_or_label)
next
  case not_mobile
  from handleValidate_not_mobile [OF assms this] show ?thesis
    using label_nonempty [of "getNumberType iti"]
    by (simp add: js_or_option_empty js_or_label)
next
  case not_fixed_line
  from handleValidate_not_fixed_line [OF assms this] show ?thesis
    using label_nonempty [of "getNumberType iti"]
    by (simp add: js_or_option_empty js_or_label)
qed

theorem valid_number_fields_witness:
  "itiRef (island (us_number TOLL_FREE) ''5551234567'' mobile) = Some (us_number TOLL_FREE)
   \<and> inputRef (island (us_number TOLL_FREE) ''5551234567'' mobile) = Some ''5551234567''
   \<and> \<not> isLoading (island (us_number TOLL_FREE) ''5551234567'' mobile)
   \<and> isValidNumber (us_number TOLL_FREE)
   \<and> (\<exists>r. result (handleValidate (island (us_number TOLL_FREE) ''5551234567'' mobile)) = Some r
          \<and> nationalNumber r = ''(555) 123-4567''
          \<and> internationalNumber r = ''+1 555-123-4567''
          \<and> numberType r = ''Toll Free'')"
  using valid_number_fields [of "island (us_number TOLL_FREE) ''5551234567'' mobile"
      "us_number TOLL_FREE" "''5551234567''"]
  by (auto simp add: fixtures numberTypeLabels_def NumberType_ids NATIONAL_def INTERNATIONAL_def)

text \<open>
  C5. The label of a number type is its entry in \<open>numberTypeLabels\<close>, one fixed string for
  each of the twelve types, and "Unknown" for every code outside the table. A valid
  number of type UNKNOWN that a filter other than \<open>any\<close> rejects carries the label
  "Unknown" in its type field and at the end of its message.
\<close>

theorem number_type_labels:
  "js_or (numberTypeLabels FIXED_LINE) ''Unknown'' = ''Fixed Line''
   \<and> js_or (numberTypeLabels MOBILE) ''Unknown'' = ''Mobile''
   \<and> js_or (numberTypeLabels FIXED_LINE_OR_MOBILE) ''Unknown'' = ''Fixed Line or Mobile''
   \<and> js_or (numberTypeLabels TOLL_FREE) ''Unknown'' = ''Toll Free''
   \<and> js_or (numberTypeLabels PREMIUM_RATE) ''Unknown'' = ''Premium Rate''
   \<and> js_or (numberTypeLabels SHARED_COST) ''Unknown'' = ''Shared Cost''
   \<and> js_or (numberTypeLabels VOIP) ''Unknown'' = ''VoIP''
   \<and> js_or (numberTypeLabels PERSONAL_NUMBER) ''Unknown'' = ''Personal Number''
   \<and> js_or (numberTypeLabels PAGER) ''Unknown'' = ''Pager''
   \<and> js_or (numberTypeLabels UAN) ''Unknown'' = ''UAN''
   \<and> js_or (numberTypeLabels VOICEMAIL) ''Unknown'' = ''Voicemail''
   \<and> js_or (numberTypeLabels UNKNOWN) ''Unknown'' = ''Unknown''
   \<and> (t \<notin> {FIXED_LINE, MOBILE, FIXED_LINE_OR_MOBILE, TOLL_FREE, PREMIUM_RATE, SHARED_COST,
             VOIP, PERSONAL_NUMBER, PAGER, UAN, VOICEMAIL, UNKNOWN}
        \<longrightarrow> js_or (numberTypeLabels t) ''Unknown'' = ''Unknown'')
   \<and> (itiRef s = Some iti \<and> inputRef s = Some v \<and> \<not> isLoading s \<and> isValidNumber iti
        \<and> getNumberType iti = UNKNOWN \<and> numberTypeFilter s \<noteq> any
        \<longrightarrow> (\<exists>r. result (handleValidate s) = Some r \<and> \<not> isValid r
               \<and> numberType r = ''Unknown''
               \<and> errorMessage r =
                   Some (if numberTypeFilter s = mobile
                         then ''Expected mobile number, got Unknown''
                         else ''Expected fixed line number, got Unknown'')))"
proof -
  have table: "js_or (numberTypeLabels FIXED_LINE) ''Unknown'' = ''Fixed Line''"
    "js_or (numberTypeLabels MOBILE) ''Unknown'' = ''Mobile''"
    "js_or (numberTypeLabels FIXED_LINE_OR_MOBILE) ''Unknown'' = ''Fixed Line or Mobile''"
    "js_or (numberTypeLabels TOLL_FREE) ''Unknown'' = ''Toll Free''"
    "js_or (numberTypeLabels PREMIUM_RATE) ''Unknown'' = ''Premium Rate''"
    "js_or (numberTypeLabels SHARED_COST) ''Unknown'' = ''Shared Cost''"
    "js_or (numberTypeLabels VOIP) ''Unknown'' = ''VoIP''"
    "js_or (numberTypeLabels PERSONAL_NUMBER) ''Unknown'' = ''Personal Number''"
    "js_or (numberTypeLabels PAGER) ''Unknown'' = ''Pager''"
    "js_or (numberTypeLabels UAN) ''Unknown'' = ''UAN''"
    "js_or (numberTypeLabels VOICEMAIL) ''Unknown'' = ''Voicemail''"
    "js_or (numberTypeLabels UNKNOWN) ''Unknown'' = ''Unknown''"
    by (simp_all add: js_or_def numberTypeLabels_def NumberType_ids)
  have unlisted: "js_or (numberTypeLabels t) ''Unknown'' = ''Unknown''"
    if "t \<notin> {FIXED_LINE, MOBILE, FIXED_LINE_OR_MOBILE, TOLL_FREE, PREMIUM_RATE, SHARED_COST,
             VOIP, PERSONAL_NUMBER, PAGER, UAN, VOICEMAIL, UNKNOWN}"
    using numberTypeLabels_unlisted [OF that] by (simp add: js_or_def)
  have rejected: "\<exists>r. result (handleValidate s) = Some r \<and> \<not> isValid r
      \<and> numberType r = ''Unknown''
      \<and> errorMessage r =
          Some (if numberTypeFilter s = mobile
                then ''Expected mobile number, got Unknown''
                else ''Expected fixed line number, got Unknown'')"
    if run: "itiRef s = Some iti" "inputRef s = Some v" "\<not> isLoading s" "isValidNumber iti"
      and unknown: "getNumberType iti = UNKNOWN" and filter: "numberTypeFilter s \<noteq> any"
  proof (cases "numberTypeFilter s")
    case mobile
    with unknown have "getNumberType iti \<noteq> MOBILE" "getNumberType iti \<noteq> FIXED_LINE_OR_MOBILE"
      by (simp_all add: NumberType_ids)
    from handleValidate_not_mobile [OF run mobile this] mobile unknown table(12)
    show ?thesis by simp
  next
    case fixed_line
    with unknown have "getNumberType iti \<noteq> FIXED_LINE" "getNumberType iti \<noteq> FIXED_LINE_OR_MOBILE"
      by (simp_all add: NumberType_ids)
    from handleValidate_not_fixed_line [OF run fixed_line this] fixed_line unknown table(12)
    show ?thesis by simp
  next
    case any
    with filter show ?thesis by simp
  qed
  from table unlisted rejected show ?thesis by blast
qed

theorem number_type_labels_witness:
  "(27::int) \<notin> {FIXED_LINE, MOBILE, FIXED_LINE_OR_MOBILE, TOLL_FREE, PREMIUM_RATE, SHARED_COST,
             VOIP, PERSONAL_NUMBER, PAGER, UAN, VOICEMAIL, UNKNOWN}
   \<and> js_or (numberTypeLabels 27) ''Unknown'' = ''Unknown''
   \<and> itiRef (island (us_number UNKNOWN) ''5551234567'' mobile) = Some (us_number UNKNOWN)
   \<and> inputRef (island (us_number UNKNOWN) ''5551234567'' mobile) = Some ''5551234567''
   \<and> \<not> isLoading (island (us_number UNKNOWN) ''5551234567'' mobile)
   \<and> isValidNumber (us_number UNKNOWN)
   \<and> getNumberType (us_number UNKNOWN) = UNKNOWN
   \<and> numberTypeFilter (island (us_number UNKNOWN) ''5551234567'' mobile) \<noteq> any
   \<and> (\<exists>r. result (handleValidate (island (us_number UNKNOWN) ''5551234567'' mobile)) = Some r
          \<and> \<not> isValid r \<and> numberType r = ''Unknown''
          \<and> errorMessage r = Some ''Expected mobile number, got Unknown'')"
  using number_type_labels [of 27 "island (us_number UNKNOWN) ''5551234567'' mobile"
      "us_number UNKNOWN" "''5551234567''"]
  by (simp add: fixtures NumberType_ids)

text \<open>
  C6. With the filter \<open>any\<close>, a number the widget accepted is accepted: the filter never
  rejects it.
\<close>

theorem any_never_rejects:
  assumes "itiRef s = Some iti" and "inputRef s = Some v" and "\<not> isLoading s"
    and "isValidNumber iti" and "numberTypeFilter s = any"
  shows "\<exists>r. result (handleValidate s) = Some r \<and> isValid r \<and> errorMessage r = None"
  using handleValidate_accepted [OF assms(1-4)] assms(5) by simp

theorem any_never_rejects_witness:
  "itiRef (island (us_number PAGER) ''5551234567'' any) = Some (us_number PAGER)
   \<and> inputRef (island (us_number PAGER) ''5551234567'' any) = Some ''5551234567''
   \<and> \<not> isLoading (island (us_number PAGER) ''5551234567'' any)
   \<and> isValidNumber (us_number PAGER)
   \<and> numberTypeFilter (island (us_number PAGER) ''5551234567'' any) = any
   \<and> (\<exists>r. result (handleValidate (island (us_number PAGER) ''5551234567'' any)) = Some r
          \<and> isValid r \<and> errorMessage r = None)"
  using any_never_rejects [of "island (us_number PAGER) ''5551234567'' any" "us_number PAGER"
      "''5551234567''"]
  by (simp add: fixtures)

text \<open>
  C7. On a type-mismatch rejection the message is "Expected mobile number, got "
  (for the filter \<open>mobile\<close>) or "Expected fixed line number, got " (for \<open>fixed_line\<close>),
  followed by the label of the widget's type code.
\<close>

theorem type_mismatch_message:
  assumes "itiRef s = Some iti" and "inputRef s = Some v" and "\<not> isLoading s"
    and "isValidNumber iti"
  shows
    "(numberTypeFilter s = mobile \<and> getNumberType iti \<notin> {MOBILE, FIXED_LINE_OR_MOBILE} \<longrightarrow>
       (\<exists>r. result (handleValidate s) = Some r \<and> \<not> isValid r \<and>
          errorMessage r = Some (''Expected mobile number, got '' @
            js_or (numberTypeLabels (getNumberType iti)) ''Unknown'')))
     \<and> (numberTypeFilter s = fixed_line \<and> getNumberType iti \<notin> {FIXED_LINE, FIXED_LINE_OR_MOBILE} \<longrightarrow>
       (\<exists>r. result (handleValidate s) = Some r \<and> \<not> isValid r \<and>
          errorMessage r = Some (''Expected fixed line number, got '' @
            js_or (numberTypeLabels (getNumberType iti)) ''Unknown'')))"
proof (intro conjI impI)
  assume "numberTypeFilter s = mobile \<and> getNumberType iti \<notin> {MOBILE, FIXED_LINE_OR_MOBILE}"
  then have "numberTypeFilter s = mobile"
    "getNumberType iti \<noteq> MOBILE" "getNumberType iti \<noteq> FIXED_LINE_OR_MOBILE"
    by simp_all
  from handleValidate_not_mobile [OF assms this]
  show "\<exists>r. result (handleValidate s) = Some r \<and> \<not> isValid r \<and>
          errorMessage r = Some (''Expected mobile number, got '' @
            js_or (numberTypeLabels (getNumberType iti)) ''Unknown'')"
    by simp
next
  assume "numberTypeFilter s = fixed_line
    \<and> getNumberType iti \<notin> {FIXED_LINE, FIXED_LINE_OR_MOBILE}"
  then have "numberTypeFilter s = fixed_line"
    "getNumberType iti \<noteq> FIXED_LINE" "getNumberType iti \<noteq> FIXED_LINE_OR_MOBILE"
    by simp_all
  from handleValidate_not_fixed_line [OF assms this]
  show "\<exists>r. result (handleValidate s) = Some r \<and> \<not> isValid r \<and>
          errorMessage r = Some (''Expected fixed line number, got '' @
            js_or (numberTypeLabels (getNumberType iti)) ''Unknown'')"
    by simp
qed

theorem type_mismatch_message_witness:
  "itiRef (island (us_number VOIP) ''5551234567'' mobile) = Some (us_number VOIP)
   \<and> inputRef (island (us_number VOIP) ''5551234567'' mobile) = Some ''5551234567''
   \<and> \<not> isLoading (island (us_number VOIP) ''5551234567'' mobile)
   \<and> isValidNumber (us_number VOIP)
   \<and> numberTypeFilter (island (us_number VOIP) ''5551234567'' mobile) = mobile
   \<and> getNumberType (us_number VOIP) \<notin> {MOBILE, FIXED_LINE_OR_MOBILE}
   \<and> (\<exists>r. result (handleValidate (island (us_number VOIP) ''5551234567'' mobile)) = Some r
          \<and> \<not> isValid r \<and> errorMessage r = Some ''Expected mobile number, got VoIP'')"
  using type_mismatch_message [of "island (us_number VOIP) ''5551234567'' mobile"
      "us_number VOIP" "''5551234567''"]
  by (simp add: fixtures js_or_def numberTypeLabels_def NumberType_ids)

text \<open>
  C8. The strict-mode flag is not read by the handler: with the widget's answers, the
  input and the filter unchanged, setting the flag to any value leaves the written
  result the same, and the handler leaves the flag as it found it.
\<close>

theorem strictMode_not_read:
  "handleValidate (s\<lparr>strictMode := b\<rparr>) = (handleValidate s)\<lparr>strictMode := b\<rparr>
   \<and> result (handleValidate (s\<lparr>strictMode := b\<rparr>)) = result (handleValidate s)
   \<and> strictMode (handleValidate s) = strictMode s"
  by (cases "itiRef s"; cases "inputRef s"; simp add: handleValidate_def Let_def)

text \<open>
  C9. The result is a function of the widget's answers, the input and the filter alone:
  two runs that agree on these write the same result, whatever the rest of the state
  (an earlier result, the strict-mode flag). Running the handler a second time changes
  nothing, and a run changes no part of the state but \<open>result\<close>.
\<close>

theorem handleValidate_deterministic:
  assumes "itiRef s = Some iti" and "inputRef s = Some v" and "\<not> isLoading s"
    and "itiRef s' = Some iti" and "inputRef s' = Some v" and "\<not> isLoading s'"
    and "numberTypeFilter s' = numberTypeFilter s"
  shows "result (handleValidate s') = result (handleValidate s)
    \<and> result (handleValidate s) \<noteq> None
    \<and> handleValidate (handleValidate s) = handleValidate s
    \<and> handleValidate s = s\<lparr>result := result (handleValidate s)\<rparr>"
proof -
  have same: "result (handleValidate s') = result (handleValidate s)"
    using assms by (rule handleValidate_same_inputs)
  have some: "result (handleValidate s) \<noteq> None"
    using assms(1-3) by (simp add: handleValidate_def Let_def)
  have again: "handleValidate (handleValidate s) = handleValidate s"
  proof -
    have "result (handleValidate (handleValidate s)) = result (handleValidate s)"
      using assms(1-3) by (intro handleValidate_same_inputs) (simp_all add: handleValidate_keeps)
    with handleValidate_frame [of "handleValidate s"] show ?thesis by simp
  qed
  from same some again handleValidate_frame [of s] show ?thesis by blast
qed

theorem handleValidate_deterministic_witness:
  "itiRef (island (us_number MOBILE) ''5551234567'' fixed_line) = Some (us_number MOBILE)
   \<and> inputRef (island (us_number MOBILE) ''5551234567'' fixed_line) = Some ''5551234567''
   \<and> \<not> isLoading (island (us_number MOBILE) ''5551234567'' fixed_line)
   \<and> itiRef (handleValidate (island (us_number MOBILE) ''5551234567'' fixed_line)
              \<lparr>strictMode := True\<rparr>) = Some (us_number MOBILE)
   \<and> inputRef (handleValidate (island (us_number MOBILE) ''5551234567'' fixed_line)
              \<lparr>strictMode := True\<rparr>) = Some ''5551234567''
   \<and> \<not> isLoading (handleValidate (island (us_number MOBILE) ''5551234567'' fixed_line)
              \<lparr>strictMode := True\<rparr>)
   \<and> numberTypeFilter (handleValidate (island (us_number MOBILE) ''5551234567'' fixed_line)
              \<lparr>strictMode := True\<rparr>)
       = numberTypeFilter (island (us_number MOBILE) ''5551234567'' fixed_line)
   \<and> result (handleValidate (handleValidate (island (us_number MOBILE) ''5551234567'' fixed_line)
              \<lparr>strictMode := True\<rparr>))
       = result (handleValidate (island (us_number MOBILE) ''5551234567'' fixed_line))
   \<and> result (handleValidate (island (us_number MOBILE) ''5551234567'' fixed_line)) \<noteq> None"
proof -
  let ?s = "island (us_number MOBILE) ''5551234567'' fixed_line"
  let ?s' = "(handleValidate ?s)\<lparr>strictMode := True\<rparr>"
  have s: "itiRef ?s = Some (us_number MOBILE)" "inputRef ?s = Some ''5551234567''"
    "\<not> isLoading ?s"
    by (simp_all add: island_def)
  have s': "itiRef ?s' = Some (us_number MOBILE)" "inputRef ?s' = Some ''5551234567''"
    "\<not> isLoading ?s'" "numberTypeFilter ?s' = numberTypeFilter ?s"
    by (simp_all add: island_def handleValidate_keeps)
  from handleValidate_deterministic [OF s s'] s s' show ?thesis by simp
qed

text \<open>
  C10. In every outcome, a rejection by the widget included, \<open>countryCode\<close> is the
  widget's \<open>iso2\<close> in upper case (the empty string when there is none), \<open>countryName\<close>
  is the widget's country name (the empty string when there is none), and \<open>number\<close> is
  the text of the input, unchanged.
\<close>

theorem country_and_number_fields:
  assumes "itiRef s = Some iti" and "inputRef s = Some v" and "\<not> isLoading s"
  shows "\<exists>r. result (handleValidate s) = Some r \<and>
    countryCode r = (case iso2 (getSelectedCountryData iti) of
                       None \<Rightarrow> [] | Some c \<Rightarrow> toUpperCase c) \<and>
    countryName r = (case name (getSelectedCountryData iti) of
                       None \<Rightarrow> [] | Some n \<Rightarrow> n) \<and>
    number r = v"
  using assms
  by (cases "isValidNumber iti"; cases "numberTypeFilter s")
    (simp_all add: handleValidate_def Let_def js_or_def split: option.split)

theorem country_and_number_fields_witness:
  "itiRef (island (rejected_number 2) ''123'' any) = Some (rejected_number 2)
   \<and> inputRef (island (rejected_number 2) ''123'' any) = Some ''123''
   \<and> \<not> isLoading (island (rejected_number 2) ''123'' any)
   \<and> (\<exists>r. result (handleValidate (island (rejected_number 2) ''123'' any)) = Some r
          \<and> countryCode r = ''US'' \<and> countryName r = ''United States'' \<and> number r = ''123'')"
  using country_and_number_fields [of "island (rejected_number 2) ''123'' any"
      "rejected_number 2" "''123''"]
  by (simp add: fixtures toUpperCase_us)

section \<open>The labels in the island of src/routes/index.tsx\<close>

lemma numberTypeKey_unloaded: "numberTypeKey None t = ''UNKNOWN''"
  by (simp add: numberTypeKey_def js_or_def)

lemma numberTypeKey_no_table:
  "utils_numberType u = None \<Longrightarrow> numberTypeKey (Some u) t = ''UNKNOWN''"
  by (simp add: numberTypeKey_def js_or_def)

lemma numberTypeKey_no_code:
  assumes "utils_numberType u = Some table" and "t \<notin> snd ` set table"
  shows "numberTypeKey (Some u) t = ''UNKNOWN''"
proof -
  have "map_of table key \<noteq> Some t" for key
    using assms(2) by (auto dest!: map_of_SomeD intro: rev_image_eqI)
  then have "find (\<lambda>key. map_of table key = Some t) (map fst table) = None"
    by (simp add: find_None_iff)
  with assms(1) show ?thesis
    by (simp add: numberTypeKey_def js_or_def)
qed

lemma numberTypeKey_loaded:
  "numberTypeKey (Some loaded_utils) FIXED_LINE = ''FIXED_LINE''"
  "numberTypeKey (Some loaded_utils) MOBILE = ''MOBILE''"
  "numberTypeKey (Some loaded_utils) FIXED_LINE_OR_MOBILE = ''FIXED_LINE_OR_MOBILE''"
  "numberTypeKey (Some loaded_utils) TOLL_FREE = ''TOLL_FREE''"
  "numberTypeKey (Some loaded_utils) PREMIUM_RATE = ''PREMIUM_RATE''"
  "numberTypeKey (Some loaded_utils) SHARED_COST = ''SHARED_COST''"
  "numberTypeKey (Some loaded_utils) VOIP = ''VOIP''"
  "numberTypeKey (Some loaded_utils) PERSONAL_NUMBER = ''PERSONAL_NUMBER''"
  "numberTypeKey (Some loaded_utils) PAGER = ''PAGER''"
  "numberTypeKey (Some loaded_utils) UAN = ''UAN''"
  "numberTypeKey (Some loaded_utils) VOICEMAIL = ''VOICEMAIL''"
  "numberTypeKey (Some loaded_utils) UNKNOWN = ''UNKNOWN''"
  by (simp_all add: numberTypeKey_def loaded_utils_def js_or_def NumberType_ids)

lemma label_routes_UNKNOWN:
  "js_or (numberTypeLabels_routes ''UNKNOWN'') ''UNKNOWN'' = ''Unknown''"
  by (simp add: numberTypeLabels_routes_def js_or_def)

lemma handleValidate_routes_not_mobile:
  assumes "itiRef s = Some iti" and "inputRef s = Some v" and "isValidNumber iti"
    and "numberTypeFilter s = mobile"
    and "numberTypeKey utils (getNumberType iti) \<noteq> ''MOBILE''"
    and "numberTypeKey utils (getNumberType iti) \<noteq> ''FIXED_LINE_OR_MOBILE''"
  shows "\<exists>r. result (handleValidate_routes utils s) = Some r \<and> \<not> isValid r \<and>
    numberType r = js_or (numberTypeLabels_routes (numberTypeKey utils (getNumberType iti)))
                     (numberTypeKey utils (getNumberType iti)) \<and>
    errorMessage r = Some (''Expected mobile number, got '' @
      js_or (numberTypeLabels_routes (numberTypeKey utils (getNumberType iti)))
        (numberTypeKey utils (getNumberType iti)))"
  using assms unfolding handleValidate_routes_def Let_def by simp

lemma handleValidate_routes_not_fixed_line:
  assumes "itiRef s = Some iti" and "inputRef s = Some v" and "isValidNumber iti"
    and "numberTypeFilter s = fixed_line"
    and "numberTypeKey utils (getNumberType iti) \<noteq> ''FIXED_LINE''"
    and "numberTypeKey utils (getNumberType iti) \<noteq> ''FIXED_LINE_OR_MOBILE''"
  shows "\<exists>r. result (handleValidate_routes utils s) = Some r \<and> \<not> isValid r \<and>
    numberType r = js_or (numberTypeLabels_routes (numberTypeKey utils (getNumberType iti)))
                     (numberTypeKey utils (getNumberType iti)) \<and>
    errorMessage r = Some (''Expected fixed line number, got '' @
      js_or (numberTypeLabels_routes (numberTypeKey utils (getNumberType iti)))
        (numberTypeKey utils (getNumberType iti)))"
  using assms unfolding handleValidate_routes_def Let_def by simp

text \<open>
  In the island of \<^verbatim>\<open>src/routes/index.tsx\<close> the label of a type code is the entry of
  \<open>numberTypeLabels_routes\<close> for the code's key in the utilities. When the utilities are
  not loaded, have no type table, or give no key for the code, the label is "Unknown".
  With the loaded utilities the twelve types get the labels of the island above. An
  accepted number of type UNKNOWN that a filter other than \<open>any\<close> rejects carries the
  label "Unknown" in its type field and at the end of its message, whether the
  utilities are loaded or not.
\<close>

lemma number_type_labels_routes:
  "(utils = None \<or> (\<exists>u. utils = Some u \<and> (utils_numberType u = None
        \<or> (\<exists>table. utils_numberType u = Some table \<and> t \<notin> snd ` set table)))
      \<longrightarrow> js_or (numberTypeLabels_routes (numberTypeKey utils t)) (numberTypeKey utils t)
            = ''Unknown'')
   \<and> map (\<lambda>c. js_or (numberTypeLabels_routes (numberTypeKey (Some loaded_utils) c))
                   (numberTypeKey (Some loaded_utils) c))
         [FIXED_LINE, MOBILE, FIXED_LINE_OR_MOBILE, TOLL_FREE, PREMIUM_RATE, SHARED_COST, VOIP,
          PERSONAL_NUMBER, PAGER, UAN, VOICEMAIL, UNKNOWN]
       = [''Fixed Line'', ''Mobile'', ''Fixed Line or Mobile'', ''Toll Free'', ''Premium Rate'',
          ''Shared Cost'', ''VoIP'', ''Personal Number'', ''Pager'', ''UAN'', ''Voicemail'',
          ''Unknown'']
   \<and> (itiRef s = Some iti \<and> inputRef s = Some v \<and> isValidNumber iti
        \<and> getNumberType iti = UNKNOWN \<and> numberTypeFilter s \<noteq> any
        \<and> (utils = None \<or> utils = Some loaded_utils)
      \<longrightarrow> (\<exists>r. result (handleValidate_routes utils s) = Some r \<and> \<not> isValid r
             \<and> numberType r = ''Unknown''
             \<and> errorMessage r =
                 Some (if numberTypeFilter s = mobile
                       then ''Expected mobile number, got Unknown''
                       else ''Expected fixed line number, got Unknown'')))"
proof (intro conjI impI)
  assume "utils = None \<or> (\<exists>u. utils = Some u \<and> (utils_numberType u = None
        \<or> (\<exists>table. utils_numberType u = Some table \<and> t \<notin> snd ` set table)))"
  then have "numberTypeKey utils t = ''UNKNOWN''"
    by (auto simp: numberTypeKey_unloaded numberTypeKey_no_table numberTypeKey_no_code)
  then show "js_or (numberTypeLabels_routes (numberTypeKey utils t)) (numberTypeKey utils t)
      = ''Unknown''"
    by (simp add: label_routes_UNKNOWN)
next
  show "map (\<lambda>c. js_or (numberTypeLabels_routes (numberTypeKey (Some loaded_utils) c))
                   (numberTypeKey (Some loaded_utils) c))
         [FIXED_LINE, MOBILE, FIXED_LINE_OR_MOBILE, TOLL_FREE, PREMIUM_RATE, SHARED_COST, VOIP,
          PERSONAL_NUMBER, PAGER, UAN, VOICEMAIL, UNKNOWN]
       = [''Fixed Line'', ''Mobile'', ''Fixed Line or Mobile'', ''Toll Free'', ''Premium Rate'',
          ''Shared Cost'', ''VoIP'', ''Personal Number'', ''Pager'', ''UAN'', ''Voicemail'',
          ''Unknown'']"
    by (simp add: numberTypeKey_loaded numberTypeLabels_routes_def js_or_def)
next
  assume a: "itiRef s = Some iti \<and> inputRef s = Some v \<and> isValidNumber iti
        \<and> getNumberType iti = UNKNOWN \<and> numberTypeFilter s \<noteq> any
        \<and> (utils = None \<or> utils = Some loaded_utils)"
  then have key: "numberTypeKey utils (getNumberType iti) = ''UNKNOWN''"
    by (auto simp: numberTypeKey_unloaded numberTypeKey_loaded)
  show "\<exists>r. result (handleValidate_routes utils s) = Some r \<and> \<not> isValid r
             \<and> numberType r = ''Unknown''
             \<and> errorMessage r =
                 Some (if numberTypeFilter s = mobile
                       then ''Expected mobile number, got Unknown''
                       else ''Expected fixed line number, got Unknown'')"
  proof (cases "numberTypeFilter s")
    case mobile
    from a key have "itiRef s = Some iti" "inputRef s = Some v" "isValidNumber iti"
      "numberTypeFilter s = mobile"
      "numberTypeKey utils (getNumberType iti) \<noteq> ''MOBILE''"
      "numberTypeKey utils (getNumberType iti) \<noteq> ''FIXED_LINE_OR_MOBILE''"
      using mobile by simp_all
    from handleValidate_routes_not_mobile [OF this] key mobile show ?thesis
      by (simp add: label_routes_UNKNOWN)
  next
    case fixed_line
    from a key have "itiRef s = Some iti" "inputRef s = Some v" "isValidNumber iti"
      "numberTypeFilter s = fixed_line"
      "numberTypeKey utils (getNumberType iti) \<noteq> ''FIXED_LINE''"
      "numberTypeKey utils (getNumberType iti) \<noteq> ''FIXED_LINE_OR_MOBILE''"
      using fixed_line by simp_all
    from handleValidate_routes_not_fixed_line [OF this] key fixed_line show ?thesis
      by (simp add: label_routes_UNKNOWN)
  next
    case any
    with a show ?thesis by simp
  qed
qed

lemma number_type_labels_routes_example:
  "js_or (numberTypeLabels_routes (numberTypeKey None 1)) (numberTypeKey None 1) = ''Unknown''
   \<and> itiRef (island (gb_number UNKNOWN) ''07400123456'' fixed_line) = Some (gb_number UNKNOWN)
   \<and> inputRef (island (gb_number UNKNOWN) ''07400123456'' fixed_line) = Some ''07400123456''
   \<and> isValidNumber (gb_number UNKNOWN)
   \<and> getNumberType (gb_number UNKNOWN) = UNKNOWN
   \<and> numberTypeFilter (island (gb_number UNKNOWN) ''07400123456'' fixed_line) \<noteq> any
   \<and> (\<exists>r. result (handleValidate_routes (Some loaded_utils)
               (island (gb_number UNKNOWN) ''07400123456'' fixed_line)) = Some r
          \<and> \<not> isValid r \<and> numberType r = ''Unknown''
          \<and> errorMessage r = Some ''Expected fixed line number, got Unknown'')"
  using number_type_labels_routes [of None 1]
    number_type_labels_routes [of "Some loaded_utils" _
      "island (gb_number UNKNOWN) ''07400123456'' fixed_line" "gb_number UNKNOWN"
      "''07400123456''"]
  by (simp add: island_def gb_number_def)

end
